theory Spec2Isabelle
  imports Complex_Main "HOL-Library.Multiset"
begin

section \<open>Errors raised by the pipeline\<close>

text \<open>
  The Python exceptions that the data pipeline (\<^verbatim>\<open>src/data/preprocess.py\<close>,
  \<^verbatim>\<open>src/data/augment.py\<close>) can raise on the paths modelled here. A function that can
  raise returns \<open>error + 'a\<close>, with \<open>Inl\<close> for the exception.
\<close>

datatype error = AssertionError | ValueError | ZeroDivisionError | OverflowError

section \<open>Floating-point arithmetic\<close>

text \<open>
  A float is a finite real or one of the special values of IEEE 754. Division by zero
  does not raise in numpy: it yields an infinity or NaN, which then propagates. Every
  zero divisor in the code modelled here is a mean of squares or a maximum of absolute
  values, hence \<open>+0.0\<close>; the sign of zero is not modelled further.
\<close>

datatype npfloat = Fin real | PInf | NInf | NaN

text \<open>
  The float format is a parameter of the model, one format for every array and scalar.
  \<open>rnd x\<close> is the float that an operation
  on finite operands returns when its exact result is \<open>x\<close>: a finite float near \<open>x\<close>, or
  an infinity when \<open>x\<close> is beyond the range of the format. \<open>pow10 y\<close> is Python's
  \<^verbatim>\<open>10 ** y\<close>, which raises \<^verbatim>\<open>OverflowError\<close> when the result is too large, and
  \<open>mean xs\<close> is \<^verbatim>\<open>np.mean\<close> of an array (numpy fixes the order of the summation).
  \<open>unit_roundoff\<close>, \<open>tiny_error\<close> and \<open>largest\<close> are the constants of the error bound
  \<open>accurate\<close> below: for IEEE doubles \<open>2^-53\<close>, \<open>2^-1075\<close> and the largest double.
\<close>

record arith =
  rnd :: "real \<Rightarrow> npfloat"
  pow10 :: "npfloat \<Rightarrow> error + npfloat"
  mean :: "npfloat list \<Rightarrow> npfloat"
  unit_roundoff :: real
  tiny_error :: real
  largest :: real

fun np_neg :: "npfloat \<Rightarrow> npfloat" where
  "np_neg (Fin a) = Fin (- a)"
| "np_neg PInf = NInf"
| "np_neg NInf = PInf"
| "np_neg NaN = NaN"

fun np_add :: "arith \<Rightarrow> npfloat \<Rightarrow> npfloat \<Rightarrow> npfloat" where
  "np_add fp NaN y = NaN"
| "np_add fp x NaN = NaN"
| "np_add fp (Fin a) (Fin b) = rnd fp (a + b)"
| "np_add fp PInf NInf = NaN"
| "np_add fp NInf PInf = NaN"
| "np_add fp PInf y = PInf"
| "np_add fp x PInf = PInf"
| "np_add fp NInf y = NInf"
| "np_add fp x NInf = NInf"

definition np_sub :: "arith \<Rightarrow> npfloat \<Rightarrow> npfloat \<Rightarrow> npfloat" where
  "np_sub fp x y = np_add fp x (np_neg y)"

text \<open>An infinity times a finite value: NaN for zero, otherwise the sign decides.\<close>

definition inf_times :: "npfloat \<Rightarrow> real \<Rightarrow> npfloat" where
  "inf_times i b = (if b = 0 then NaN else if 0 < b then i else np_neg i)"

fun np_mul :: "arith \<Rightarrow> npfloat \<Rightarrow> npfloat \<Rightarrow> npfloat" where
  "np_mul fp NaN y = NaN"
| "np_mul fp x NaN = NaN"
| "np_mul fp (Fin a) (Fin b) = rnd fp (a * b)"
| "np_mul fp (Fin a) y = inf_times y a"
| "np_mul fp x (Fin b) = inf_times x b"
| "np_mul fp PInf y = y"
| "np_mul fp NInf y = np_neg y"

fun np_div :: "arith \<Rightarrow> npfloat \<Rightarrow> npfloat \<Rightarrow> npfloat" where
  "np_div fp NaN y = NaN"
| "np_div fp x NaN = NaN"
| "np_div fp (Fin a) (Fin b) =
     (if b \<noteq> 0 then rnd fp (a / b) else if a = 0 then NaN else if 0 < a then PInf else NInf)"
| "np_div fp (Fin a) y = Fin 0"
| "np_div fp x (Fin b) = (if 0 \<le> b then x else np_neg x)"
| "np_div fp x y = NaN"

fun np_sqrt :: "arith \<Rightarrow> npfloat \<Rightarrow> npfloat" where
  "np_sqrt fp (Fin a) = (if 0 \<le> a then rnd fp (sqrt a) else NaN)"
| "np_sqrt fp PInf = PInf"
| "np_sqrt fp NInf = NaN"
| "np_sqrt fp NaN = NaN"

fun np_abs :: "npfloat \<Rightarrow> npfloat" where
  "np_abs (Fin a) = Fin \<bar>a\<bar>"
| "np_abs PInf = PInf"
| "np_abs NInf = PInf"
| "np_abs NaN = NaN"

text \<open>Comparisons: every comparison with NaN is false.\<close>

fun np_lt :: "npfloat \<Rightarrow> npfloat \<Rightarrow> bool" where
  "np_lt NaN y = False"
| "np_lt x NaN = False"
| "np_lt (Fin a) (Fin b) = (a < b)"
| "np_lt PInf y = False"
| "np_lt x PInf = True"
| "np_lt NInf y = (y \<noteq> NInf)"
| "np_lt x NInf = False"

fun np_le :: "npfloat \<Rightarrow> npfloat \<Rightarrow> bool" where
  "np_le NaN y = False"
| "np_le x NaN = False"
| "np_le (Fin a) (Fin b) = (a \<le> b)"
| "np_le NInf y = True"
| "np_le x PInf = True"
| "np_le PInf y = False"
| "np_le x NInf = False"

text \<open>\<^verbatim>\<open>np.maximum\<close> propagates NaN.\<close>

fun np_maximum :: "npfloat \<Rightarrow> npfloat \<Rightarrow> npfloat" where
  "np_maximum NaN y = NaN"
| "np_maximum x NaN = NaN"
| "np_maximum (Fin a) (Fin b) = Fin (max a b)"
| "np_maximum PInf y = PInf"
| "np_maximum x PInf = PInf"
| "np_maximum NInf y = y"
| "np_maximum x NInf = x"

text \<open>\<^verbatim>\<open>np.max\<close> of an array: a zero-size array has no maximum and numpy raises.\<close>

fun np_max :: "npfloat list \<Rightarrow> error + npfloat" where
  "np_max [] = Inl ValueError"
| "np_max (x # xs) = Inr (fold np_maximum xs x)"

text \<open>
  What the theorems assume of the format. \<open>rounding\<close>: rounding keeps 0 and 1, never
  yields NaN, commutes with negation, is monotone, and returns a float unchanged.
  \<open>accurate\<close>: a result within the range of the format is finite, with a relative error
  of at most the unit roundoff plus an absolute error for tiny results.
  \<open>attenuating\<close>: \<^verbatim>\<open>10 ** y\<close> lies between 0 and 1 for \<open>y\<close> at most 0 (minus infinity
  included).
  Round-to-nearest in an IEEE binary format is \<open>rounding\<close> and \<open>accurate\<close>; a power
  function that is monotone in its exponent, with \<^verbatim>\<open>10 ** 0.0 == 1.0\<close>, is
  \<open>attenuating\<close>.
\<close>

definition rounding :: "arith \<Rightarrow> bool" where
  "rounding fp \<longleftrightarrow>
     rnd fp 0 = Fin 0 \<and> rnd fp 1 = Fin 1 \<and>
     (\<forall>x. rnd fp x \<noteq> NaN) \<and>
     (\<forall>x. rnd fp (- x) = np_neg (rnd fp x)) \<and>
     (\<forall>x y. x \<le> y \<longrightarrow> np_le (rnd fp x) (rnd fp y)) \<and>
     (\<forall>x r. rnd fp x = Fin r \<longrightarrow> rnd fp r = Fin r)"

definition accurate :: "arith \<Rightarrow> bool" where
  "accurate fp \<longleftrightarrow>
     0 \<le> unit_roundoff fp \<and> 0 \<le> tiny_error fp \<and>
     (\<forall>x. \<bar>x\<bar> \<le> largest fp \<longrightarrow>
        (\<exists>r. rnd fp x = Fin r \<and> \<bar>r - x\<bar> \<le> unit_roundoff fp * \<bar>x\<bar> + tiny_error fp))"

definition attenuating :: "arith \<Rightarrow> bool" where
  "attenuating fp \<longleftrightarrow>
     (\<forall>y g. np_le y (Fin 0) \<longrightarrow> pow10 fp y = Inr g \<longrightarrow> (\<exists>v. g = Fin v \<and> 0 \<le> v \<and> v \<le> 1))"

text \<open>
  The arithmetic without rounding and without overflow, on which the concrete examples
  are evaluated: every exact result is returned as it is.
\<close>

fun exact_pow10 :: "npfloat \<Rightarrow> error + npfloat" where
  "exact_pow10 (Fin q) = Inr (Fin (10 powr q))"
| "exact_pow10 PInf = Inr PInf"
| "exact_pow10 NInf = Inr (Fin 0)"
| "exact_pow10 NaN = Inr NaN"

definition exact_ops :: arith where
  "exact_ops = \<lparr>rnd = Fin, pow10 = exact_pow10, mean = (\<lambda>xs. NaN),
                unit_roundoff = 0, tiny_error = 0, largest = 2 ^ 1024\<rparr>"

definition exact_arith :: arith where
  "exact_arith =
     exact_ops\<lparr>mean := (\<lambda>xs. np_div exact_ops (foldl (np_add exact_ops) (Fin 0) xs)
                              (Fin (real (length xs))))\<rparr>"

text \<open>
  The arithmetic that is exact within the range of IEEE doubles and overflows beyond it:
  a result of magnitude \<open>2^1024\<close> or more is an infinity, and \<^verbatim>\<open>10 ** y\<close> raises
  when its result is that large.
\<close>

definition double_range :: arith where
  "double_range =
     exact_arith\<lparr>rnd := (\<lambda>x. if 2 ^ 1024 \<le> x then PInf
                              else if x \<le> - (2 ^ 1024) then NInf else Fin x),
                 pow10 := (\<lambda>y. case y of
                                  Fin q \<Rightarrow> if 2 ^ 1024 \<le> 10 powr q then Inl OverflowError
                                           else Inr (Fin (10 powr q))
                                | _ \<Rightarrow> exact_pow10 y)\<rparr>"

section \<open>DatasetSplitter\<close>

text \<open>
  The ratios and the seed are the fields that \<^verbatim>\<open>DatasetSplitter.__init__\<close> stores.
\<close>

record splitter =
  train_ratio :: real
  valid_ratio :: real
  test_ratio :: real
  random_seed :: int

text \<open>
  \<^verbatim>\<open>DatasetSplitter.__init__\<close>: the \<^verbatim>\<open>assert\<close> on
  \<^verbatim>\<open>abs(train_ratio + valid_ratio + test_ratio - 1.0) < 1e-6\<close> comes first, then the
  four assignments. The sum is a sum of floats, left to right. An \<^verbatim>\<open>assert\<close> statement
  is not executed when the interpreter runs with \<^verbatim>\<open>-O\<close>: \<open>optimized\<close> is that flag.
\<close>

definition DatasetSplitter ::
  "arith \<Rightarrow> bool \<Rightarrow> real \<Rightarrow> real \<Rightarrow> real \<Rightarrow> int \<Rightarrow> error + splitter" where
  "DatasetSplitter fp optimized tr vr te seed =
     (if optimized \<or>
         np_lt (np_abs (np_sub fp (np_add fp (np_add fp (Fin tr) (Fin vr)) (Fin te)) (Fin 1)))
           (rnd fp (1 / 1000000))
      then Inr \<lparr>train_ratio = tr, valid_ratio = vr, test_ratio = te, random_seed = seed\<rparr>
      else Inl AssertionError)"

subsection \<open>Records of the corpus\<close>

text \<open>
  A sample is the dict \<^verbatim>\<open>{"path", "transcript", "speaker", "locale"}\<close> built by the
  loaders. \<^verbatim>\<open>split_by_speaker\<close> reads the speaker with
  \<^verbatim>\<open>sample.get("speaker", "unknown")\<close>, so the key may be absent: \<open>speaker = None\<close>.
\<close>

record sample =
  path :: string
  transcript :: string
  speaker :: "string option"
  locale_code :: string

definition speaker_key :: "sample \<Rightarrow> string" where
  "speaker_key s = (case speaker s of None \<Rightarrow> ''unknown'' | Some sp \<Rightarrow> sp)"

subsection \<open>Grouping by speaker\<close>

text \<open>
  \<^verbatim>\<open>speaker_to_samples = defaultdict(list)\<close> is an insertion-ordered dict: an association
  list whose keys are in order of first insertion.
  \<^verbatim>\<open>speaker_to_samples[speaker].append(sample)\<close> appends to the list of an existing key
  or inserts the key at the end.
\<close>

fun append_sample ::
  "string \<Rightarrow> sample \<Rightarrow> (string \<times> sample list) list \<Rightarrow> (string \<times> sample list) list" where
  "append_sample k s [] = [(k, [s])]"
| "append_sample k s ((k', ss) # m) =
     (if k' = k then (k', ss @ [s]) # m else (k', ss) # append_sample k s m)"

definition group_by_speaker :: "sample list \<Rightarrow> (string \<times> sample list) list" where
  "group_by_speaker data = foldl (\<lambda>m s. append_sample (speaker_key s) s m) [] data"

text \<open>Reading \<^verbatim>\<open>speaker_to_samples[speaker]\<close>: a defaultdict gives \<open>[]\<close> for a missing key.\<close>

definition lookup_samples :: "(string \<times> sample list) list \<Rightarrow> string \<Rightarrow> sample list" where
  "lookup_samples m k = (case map_of m k of None \<Rightarrow> [] | Some ss \<Rightarrow> ss)"

subsection \<open>The library split\<close>

text \<open>
  \<^verbatim>\<open>sklearn.model_selection.train_test_split(xs, test_size=t, random_state=seed)\<close> with a
  float \<open>t\<close>, as the library documents and implements it: \<open>t\<close> must lie strictly between 0
  and 1, \<open>n_test = ceil(t * n)\<close>, \<open>n_train = n - n_test\<close>, and an empty train part is an
  error. The indices are those of \<^verbatim>\<open>RandomState(seed).permutation(n)\<close>: the first
  \<open>n_test\<close> go to the test part, the next \<open>n_train\<close> to the train part. The generator is
  a parameter \<open>permutation seed n\<close>.
\<close>

definition validate_shuffle_split :: "nat \<Rightarrow> real \<Rightarrow> error + nat \<times> nat" where
  "validate_shuffle_split n_samples test_size =
     (if test_size \<le> 0 \<or> test_size \<ge> 1 then Inl ValueError
      else let n_test = nat \<lceil>test_size * real n_samples\<rceil>;
               n_train = n_samples - n_test
           in if n_train = 0 then Inl ValueError else Inr (n_train, n_test))"

definition train_test_split ::
  "(int \<Rightarrow> nat \<Rightarrow> nat list) \<Rightarrow> 'a list \<Rightarrow> real \<Rightarrow> int \<Rightarrow> error + 'a list \<times> 'a list" where
  "train_test_split permutation xs test_size random_state =
     (case validate_shuffle_split (length xs) test_size of
        Inl e \<Rightarrow> Inl e
      | Inr (n_train, n_test) \<Rightarrow>
          let p = permutation random_state (length xs);
              ind_test = take n_test p;
              ind_train = take n_train (drop n_test p)
          in Inr (map (\<lambda>i. xs ! i) ind_train, map (\<lambda>i. xs ! i) ind_test))"

text \<open>Python's \<^verbatim>\<open>a / b\<close> on floats raises on a zero divisor.\<close>

definition py_div :: "real \<Rightarrow> real \<Rightarrow> error + real" where
  "py_div a b = (if b = 0 then Inl ZeroDivisionError else Inr (a / b))"

subsection \<open>The speaker-aware split\<close>

text \<open>
  \<^verbatim>\<open>DatasetSplitter.split_by_speaker\<close>: group, split the speakers into train and the
  rest, split the rest into valid and test, and extend each output list with the samples
  of its speakers in turn.
\<close>

definition split_by_speaker ::
  "(int \<Rightarrow> nat \<Rightarrow> nat list) \<Rightarrow> splitter \<Rightarrow> sample list \<Rightarrow>
     error + sample list \<times> sample list \<times> sample list" where
  "split_by_speaker permutation self data =
     (let speaker_to_samples = group_by_speaker data;
          speakers = map fst speaker_to_samples
      in case train_test_split permutation speakers
                (valid_ratio self + test_ratio self) (random_seed self) of
           Inl e \<Rightarrow> Inl e
         | Inr (train_speakers, temp_speakers) \<Rightarrow>
            (case py_div (test_ratio self) (valid_ratio self + test_ratio self) of
               Inl e \<Rightarrow> Inl e
             | Inr t \<Rightarrow>
                (case train_test_split permutation temp_speakers t (random_seed self) of
                   Inl e \<Rightarrow> Inl e
                 | Inr (valid_speakers, test_speakers) \<Rightarrow>
                     Inr (concat (map (lookup_samples speaker_to_samples) train_speakers),
                          concat (map (lookup_samples speaker_to_samples) valid_speakers),
                          concat (map (lookup_samples speaker_to_samples) test_speakers)))))"


section \<open>Audio buffers\<close>

text \<open>
  An input buffer is a list of finite samples. \<^verbatim>\<open>np.mean(x ** 2)\<close> squares every
  sample and takes the mean; the mean of an empty array is NaN (a warning, not an error).
\<close>

definition mean_square :: "arith \<Rightarrow> real list \<Rightarrow> npfloat" where
  "mean_square fp xs = mean fp (map (\<lambda>x. np_mul fp (Fin x) (Fin x)) xs)"

section \<open>AudioPreprocessor\<close>


section \<open>AudioAugmenter\<close>

text \<open>
  \<^verbatim>\<open>augmented / np.max(np.abs(augmented)) * 0.95\<close>, the unguarded peak scaling at the
  end of \<^verbatim>\<open>add_white_noise\<close> and \<^verbatim>\<open>add_background_noise\<close>.
\<close>

definition scale_to_peak :: "arith \<Rightarrow> npfloat list \<Rightarrow> error + npfloat list" where
  "scale_to_peak fp augmented =
     (case np_max (map np_abs augmented) of
        Inl e \<Rightarrow> Inl e
      | Inr peak \<Rightarrow>
          Inr (map (\<lambda>x. np_mul fp (np_div fp x peak) (rnd fp (95/100))) augmented))"

text \<open>
  \<^verbatim>\<open>add_white_noise\<close>; \<open>noise\<close> is the array drawn by
  \<^verbatim>\<open>np.random.normal(0, noise_level, audio.shape)\<close>, of the length of \<open>audio\<close>.
\<close>

definition add_white_noise :: "arith \<Rightarrow> real list \<Rightarrow> real list \<Rightarrow> error + npfloat list" where
  "add_white_noise fp audio noise =
     scale_to_peak fp (map (\<lambda>(a, n). np_add fp (Fin a) (Fin n)) (zip audio noise))"

text \<open>
  \<^verbatim>\<open>add_background_noise\<close>. The noise is tiled only when it is shorter than the signal:
  \<^verbatim>\<open>len(audio) / len(noise_audio)\<close> is a Python division and raises on an empty noise
  buffer. The powers are numpy scalars, so the division by the noise power does not raise;
  \<^verbatim>\<open>10 ** (snr_db / 10.0)\<close> is a Python power and can.
\<close>

definition tile_noise :: "real list \<Rightarrow> real list \<Rightarrow> error + real list" where
  "tile_noise audio noise_audio =
     (if length noise_audio < length audio
      then if length noise_audio = 0 then Inl ZeroDivisionError
           else let repeats = nat \<lceil>real (length audio) / real (length noise_audio)\<rceil>
                in Inr (concat (replicate repeats noise_audio))
      else Inr noise_audio)"

definition add_background_noise ::
  "arith \<Rightarrow> real list \<Rightarrow> real list \<Rightarrow> real \<Rightarrow> error + npfloat list" where
  "add_background_noise fp audio noise_audio snr_db =
     (case tile_noise audio noise_audio of
        Inl e \<Rightarrow> Inl e
      | Inr tiled \<Rightarrow>
          let noise_audio = take (length audio) tiled;
              signal_power = mean_square fp audio;
              noise_power = mean_square fp noise_audio
          in case pow10 fp (np_div fp (Fin snr_db) (Fin 10)) of
               Inl e \<Rightarrow> Inl e
             | Inr snr_linear \<Rightarrow>
                 let noise_scale =
                       np_sqrt fp (np_div fp signal_power (np_mul fp noise_power snr_linear));
                     augmented = map (\<lambda>(a, n). np_add fp (Fin a) (np_mul fp noise_scale (Fin n)))
                                   (zip audio noise_audio)
                 in scale_to_peak fp augmented)"

text \<open>
  \<^verbatim>\<open>volume_perturbation\<close>: \<^verbatim>\<open>10 ** (gain_db / 20.0)\<close> is a Python power;
  \<^verbatim>\<open>np.max\<close> raises on an empty buffer; the division is guarded by the peak exceeding
  1.0.
\<close>

definition volume_perturbation :: "arith \<Rightarrow> real list \<Rightarrow> real \<Rightarrow> error + npfloat list" where
  "volume_perturbation fp audio gain_db =
     (case pow10 fp (np_div fp (Fin gain_db) (Fin 20)) of
        Inl e \<Rightarrow> Inl e
      | Inr gain_linear \<Rightarrow>
          let augmented = map (\<lambda>x. np_mul fp (Fin x) gain_linear) audio
          in case np_max (map np_abs augmented) of
               Inl e \<Rightarrow> Inl e
             | Inr peak \<Rightarrow>
                 if np_lt (Fin 1) peak
                 then Inr (map (\<lambda>x. np_mul fp (np_div fp x peak) (rnd fp (95/100))) augmented)
                 else Inr augmented)"

subsection \<open>The augmentation planner\<close>

text \<open>
  \<^verbatim>\<open>AudioAugmenter.augment_audio\<close>. The decoder, the encoder and the time stretch are
  library code: \<open>audio\<close> is the buffer that \<^verbatim>\<open>librosa.load\<close> returned, \<open>base_name\<close> is
  \<^verbatim>\<open>Path(audio_path).stem\<close>, \<open>time_stretch\<close> is \<^verbatim>\<open>librosa.effects.time_stretch\<close>
  (it may raise), and \<open>normal level i\<close> is sample \<open>i\<close> of the array drawn by
  \<^verbatim>\<open>np.random.normal(0, level, audio.shape)\<close>. The state is the pair of the files
  written by \<^verbatim>\<open>sf.write\<close> (path and samples) and the list \<^verbatim>\<open>augmented_files\<close>.
  A path \<^verbatim>\<open>output_dir / name\<close> is the directory, a slash and the name. When a
  transform raises, the files written so far stay: a loop that raises yields them with
  the exception, and \<^verbatim>\<open>augment_audio\<close> yields the files written and either the
  exception or the list it returns.
\<close>

type_synonym aug_state = "(string \<times> npfloat list) list \<times> (string \<times> string) list"

definition speed_perturbation ::
  "(real list \<Rightarrow> real \<Rightarrow> error + real list) \<Rightarrow> real list \<Rightarrow> real \<Rightarrow> error + real list" where
  "speed_perturbation time_stretch audio speed_factor = time_stretch audio speed_factor"

text \<open>
  One variant: \<^verbatim>\<open>out_path = output_dir / f"{base_name}<suffix>"\<close>,
  \<^verbatim>\<open>sf.write(str(out_path), aug_audio, sr)\<close>, then the append.
\<close>

definition variant_path :: "string \<Rightarrow> string \<Rightarrow> string \<Rightarrow> string" where
  "variant_path output_dir base_name suffix = output_dir @ ''/'' @ base_name @ suffix"

definition write_variant ::
  "string \<Rightarrow> string \<Rightarrow> string \<Rightarrow> string \<Rightarrow> npfloat list \<Rightarrow> aug_state \<Rightarrow> aug_state" where
  "write_variant output_dir base_name suffix tag aug_audio st =
     (let out_path = variant_path output_dir base_name suffix
      in (fst st @ [(out_path, aug_audio)], snd st @ [(out_path, tag)]))"

text \<open>
  The three loops. Each parameter comes with the text that the f-string prints for it:
  \<^verbatim>\<open>for speed in [0.9, 1.1]\<close>, \<^verbatim>\<open>for noise_level in [0.003, 0.007]\<close>,
  \<^verbatim>\<open>for gain in [-3, 3]\<close>.
\<close>

fun speed_loop ::
  "(real list \<Rightarrow> real \<Rightarrow> error + real list) \<Rightarrow> real list \<Rightarrow> string \<Rightarrow> string \<Rightarrow>
     (real \<times> string) list \<Rightarrow> aug_state \<Rightarrow> (string \<times> npfloat list) list \<times> error + aug_state" where
  "speed_loop time_stretch audio output_dir base_name [] st = Inr st"
| "speed_loop time_stretch audio output_dir base_name ((speed, txt) # rest) st =
     (case speed_perturbation time_stretch audio speed of
        Inl e \<Rightarrow> Inl (fst st, e)
      | Inr aug_audio \<Rightarrow>
          speed_loop time_stretch audio output_dir base_name rest
            (write_variant output_dir base_name (''_speed'' @ txt @ ''.wav'') (''speed_'' @ txt)
               (map Fin aug_audio) st))"

fun noise_loop ::
  "arith \<Rightarrow> (real \<Rightarrow> nat \<Rightarrow> real) \<Rightarrow> real list \<Rightarrow> string \<Rightarrow> string \<Rightarrow>
     (real \<times> string) list \<Rightarrow> aug_state \<Rightarrow> (string \<times> npfloat list) list \<times> error + aug_state" where
  "noise_loop fp normal audio output_dir base_name [] st = Inr st"
| "noise_loop fp normal audio output_dir base_name ((noise_level, txt) # rest) st =
     (case add_white_noise fp audio (map (normal noise_level) [0..<length audio]) of
        Inl e \<Rightarrow> Inl (fst st, e)
      | Inr aug_audio \<Rightarrow>
          noise_loop fp normal audio output_dir base_name rest
            (write_variant output_dir base_name (''_noise'' @ txt @ ''.wav'') (''noise_'' @ txt)
               aug_audio st))"

fun volume_loop ::
  "arith \<Rightarrow> real list \<Rightarrow> string \<Rightarrow> string \<Rightarrow> (real \<times> string) list \<Rightarrow> aug_state \<Rightarrow>
     (string \<times> npfloat list) list \<times> error + aug_state" where
  "volume_loop fp audio output_dir base_name [] st = Inr st"
| "volume_loop fp audio output_dir base_name ((gain, txt) # rest) st =
     (case volume_perturbation fp audio gain of
        Inl e \<Rightarrow> Inl (fst st, e)
      | Inr aug_audio \<Rightarrow>
          volume_loop fp audio output_dir base_name rest
            (write_variant output_dir base_name (''_vol'' @ txt @ ''db.wav'')
               (''volume_'' @ txt @ ''db'') aug_audio st))"

definition augment_audio ::
  "arith \<Rightarrow> (real list \<Rightarrow> real \<Rightarrow> error + real list) \<Rightarrow> (real \<Rightarrow> nat \<Rightarrow> real) \<Rightarrow> real list \<Rightarrow>
     string \<Rightarrow> string \<Rightarrow> string list \<Rightarrow>
     (string \<times> npfloat list) list \<times> (error + (string \<times> string) list)" where
  "augment_audio fp time_stretch normal audio output_dir base_name techniques =
     (let st0 = write_variant output_dir base_name ''_original.wav'' ''original''
                  (map Fin audio) ([], [])
      in case (if ''speed'' \<in> set techniques
               then speed_loop time_stretch audio output_dir base_name
                      [(9/10, ''0.9''), (11/10, ''1.1'')] st0
               else Inr st0) of
           Inl (written, e) \<Rightarrow> (written, Inl e)
         | Inr st1 \<Rightarrow>
            (case (if ''noise'' \<in> set techniques
                   then noise_loop fp normal audio output_dir base_name
                          [(3/1000, ''0.003''), (7/1000, ''0.007'')] st1
                   else Inr st1) of
               Inl (written, e) \<Rightarrow> (written, Inl e)
             | Inr st2 \<Rightarrow>
                 (case (if ''volume'' \<in> set techniques
                        then volume_loop fp audio output_dir base_name
                               [(- 3, ''-3''), (3, ''3'')] st2
                        else Inr st2) of
                    Inl (written, e) \<Rightarrow> (written, Inl e)
                  | Inr st3 \<Rightarrow> (fst st3, Inr (snd st3)))))"

subsection \<open>Selection of the samples to augment\<close>

text \<open>
  The random generators of the process: \<open>py_random\<close> is the generator of Python's
  \<^verbatim>\<open>random\<close> module, which the interpreter seeds at start-up, and \<open>np_random\<close> is
  numpy's global generator. \<open>seeded s\<close> is the state of a generator seeded with \<open>s\<close>.
\<close>

record 'g generators =
  py_random :: 'g
  np_random :: 'g

record 'g augmenter =
  sr :: int
  rng :: 'g

text \<open>
  \<^verbatim>\<open>AudioAugmenter.__init__\<close>: \<^verbatim>\<open>self.rng = random.Random(seed)\<close> and
  \<^verbatim>\<open>np.random.seed(seed)\<close>.
\<close>

definition AudioAugmenter ::
  "(int \<Rightarrow> 'g) \<Rightarrow> int \<Rightarrow> int \<Rightarrow> 'g generators \<Rightarrow> 'g augmenter \<times> 'g generators" where
  "AudioAugmenter seeded sr_arg seed gens =
     (\<lparr>sr = sr_arg, rng = seeded seed\<rparr>, gens\<lparr>np_random := seeded seed\<rparr>)"

text \<open>Python's \<^verbatim>\<open>int(x)\<close> on a float truncates towards zero.\<close>

definition py_int :: "real \<Rightarrow> int" where
  "py_int x = (if 0 \<le> x then \<lfloor>x\<rfloor> else \<lceil>x\<rceil>)"

text \<open>
  The selection step of \<^verbatim>\<open>augment_dataset\<close>: \<^verbatim>\<open>augmenter = AudioAugmenter()\<close> (rate
  16000, seed 42), then \<^verbatim>\<open>random.sample(samples, num_to_augment)\<close>, a call on the
  module's generator; \<open>random_sample g xs k\<close> is what it returns in state \<open>g\<close>. It raises
  when \<open>k\<close> is negative or exceeds the population.
\<close>

definition select_to_augment ::
  "(int \<Rightarrow> 'g) \<Rightarrow> ('g \<Rightarrow> sample list \<Rightarrow> nat \<Rightarrow> sample list) \<Rightarrow> 'g generators \<Rightarrow>
     sample list \<Rightarrow> real \<Rightarrow> error + sample list" where
  "select_to_augment seeded random_sample gens samples augment_ratio =
     (let (augmenter, gens') = AudioAugmenter seeded 16000 42 gens;
          num_to_augment = py_int (real (length samples) * augment_ratio)
      in if num_to_augment < 0 \<or> int (length samples) < num_to_augment then Inl ValueError
         else Inr (random_sample (py_random gens') samples (nat num_to_augment)))"

section \<open>Statistics of the run\<close>

text \<open>
  The statistics that \<^verbatim>\<open>main\<close> of \<^verbatim>\<open>preprocess.py\<close> writes. \<open>get_duration p\<close> is
  \<^verbatim>\<open>librosa.get_duration(path=p)\<close>, the duration in seconds of the file at \<open>p\<close>.
\<close>

record stats =
  total_samples :: nat
  train_samples :: nat
  valid_samples :: nat
  test_samples :: nat
  estimated_hours :: real
  target_sr :: int
  speaker_split :: bool

definition total_duration :: "(string \<Rightarrow> real) \<Rightarrow> sample list \<Rightarrow> real" where
  "total_duration get_duration train_data =
     (\<Sum>sample\<leftarrow>take 100 train_data. get_duration (path sample)) *
       (real (length train_data) / 100)"

definition make_stats ::
  "(string \<Rightarrow> real) \<Rightarrow> sample list \<Rightarrow> sample list \<Rightarrow> sample list \<Rightarrow> sample list \<Rightarrow>
     int \<Rightarrow> bool \<Rightarrow> stats" where
  "make_stats get_duration all_samples train_data valid_data test_data sample_rate by_speaker =
     \<lparr>total_samples = length all_samples,
      train_samples = length train_data,
      valid_samples = length valid_data,
      test_samples = length test_data,
      estimated_hours = total_duration get_duration train_data / 3600,
      target_sr = sample_rate,
      speaker_split = by_speaker\<rparr>"

section \<open>Noise mixing as specified\<close>






section \<open>Example inputs\<close>

text \<open>
  Concrete inputs on which the theorems below are instantiated: a generator that returns
  the indices in decreasing order, the default splitter of \<^verbatim>\<open>main\<close>, and a corpus of
  eight utterances by six speakers.
\<close>

definition demo_permutation :: "int \<Rightarrow> nat \<Rightarrow> nat list" where
  "demo_permutation seed n = rev [0..<n]"

definition utterance :: "string \<Rightarrow> string \<Rightarrow> sample" where
  "utterance p s = \<lparr>path = p, transcript = ''t'', speaker = Some s, locale_code = ''bn''\<rparr>"

definition demo_corpus :: "sample list" where
  "demo_corpus =
     [utterance ''a1'' ''A'', utterance ''b1'' ''B'', utterance ''a2'' ''A'',
      utterance ''c1'' ''C'', utterance ''d1'' ''D'', utterance ''e1'' ''E'',
      utterance ''b2'' ''B'', utterance ''f1'' ''F'']"

text \<open>
  Stand-ins for the library functions: a time stretch that returns its input, a noise
  draw of zeros, and a generator whose state is a number, with a sampler that takes the
  first \<open>k\<close> elements of the population rotated by the state.
\<close>

definition demo_time_stretch :: "real list \<Rightarrow> real \<Rightarrow> error + real list" where
  "demo_time_stretch audio rate = Inr audio"

definition demo_normal :: "real \<Rightarrow> nat \<Rightarrow> real" where
  "demo_normal level i = 0"

definition demo_seeded :: "int \<Rightarrow> nat" where
  "demo_seeded seed = nat \<bar>seed\<bar>"

definition demo_sample :: "nat \<Rightarrow> sample list \<Rightarrow> nat \<Rightarrow> sample list" where
  "demo_sample g xs k = take k (rotate g xs)"

definition demo_get_duration :: "string \<Rightarrow> real" where
  "demo_get_duration p = real (length p)"

definition default_splitter :: splitter where
  "default_splitter =
     \<lparr>train_ratio = 8/10, valid_ratio = 1/10, test_ratio = 1/10, random_seed = 42\<rparr>"

section \<open>Properties of the arithmetic\<close>

lemma exact_arith_simps:
  "rnd exact_arith = Fin" "pow10 exact_arith = exact_pow10"
  "unit_roundoff exact_arith = 0" "tiny_error exact_arith = 0" "largest exact_arith = 2 ^ 1024"
  "rnd exact_ops = Fin"
  by (simp_all add: exact_arith_def exact_ops_def)

lemma exact_arith_mean:
  "mean exact_arith xs =
     np_div exact_ops (foldl (np_add exact_ops) (Fin 0) xs) (Fin (real (length xs)))"
  by (simp add: exact_arith_def)

lemma double_range_simps:
  "rnd double_range = (\<lambda>x. if 2 ^ 1024 \<le> x then PInf
                              else if x \<le> - (2 ^ 1024) then NInf else Fin x)"
  "pow10 double_range = (\<lambda>y. case y of
                                  Fin q \<Rightarrow> if 2 ^ 1024 \<le> 10 powr q then Inl OverflowError
                                           else Inr (Fin (10 powr q))
                                | _ \<Rightarrow> exact_pow10 y)"
  by (simp_all add: double_range_def)

lemma rounding_exact: "rounding exact_arith"
  by (simp add: rounding_def exact_arith_simps)

lemma accurate_exact: "accurate exact_arith"
  by (simp add: accurate_def exact_arith_simps)

lemma attenuating_exact: "attenuating exact_arith"
proof -
  have le: "10 powr q \<le> 1" if "q \<le> 0" for q :: real
  proof -
    have "10 powr q \<le> 10 powr 0" using that by (intro powr_mono) auto
    then show ?thesis by simp
  qed
  have "\<exists>v. g = Fin v \<and> 0 \<le> v \<and> v \<le> 1"
    if "np_le y (Fin 0)" "exact_pow10 y = Inr g" for y g
    using that le by (cases y) auto
  then show ?thesis unfolding attenuating_def exact_arith_simps by blast
qed

lemma accurateD:
  assumes "accurate fp" and "\<bar>x\<bar> \<le> largest fp"
  obtains r where "rnd fp x = Fin r"
    and "\<bar>r - x\<bar> \<le> unit_roundoff fp * \<bar>x\<bar> + tiny_error fp"
  using assms unfolding accurate_def by blast

lemma accurate_bound:
  assumes "accurate fp" and "\<bar>x\<bar> \<le> b" and "b \<le> largest fp"
  obtains r where "rnd fp x = Fin r"
    and "\<bar>r - x\<bar> \<le> unit_roundoff fp * b + tiny_error fp"
proof -
  from assms have "\<bar>x\<bar> \<le> largest fp" by linarith
  with assms(1) obtain r where r: "rnd fp x = Fin r"
    "\<bar>r - x\<bar> \<le> unit_roundoff fp * \<bar>x\<bar> + tiny_error fp" by (rule accurateD)
  have "0 \<le> unit_roundoff fp" using assms(1) by (simp add: accurate_def)
  then have "unit_roundoff fp * \<bar>x\<bar> \<le> unit_roundoff fp * b"
    using assms(2) by (rule mult_left_mono[rotated])
  with r that show ?thesis by fastforce
qed

section \<open>Construction of the splitter\<close>

text \<open>
  C6 (as amended). With assertions enabled, and ratios of magnitude at most 2:
  constructing the splitter raises when the exact sum of the ratios differs from 1.0 by
  more than 1e-6 plus a rounding margin, and succeeds, storing the ratios and the seed as
  given, when it differs by less than 1e-6 minus that margin. The margin is 28 unit
  roundoffs plus 4 tiny errors of the float format (about 3e-15 for doubles); in the band
  between the two bounds the outcome depends on the rounding of the float sum. With
  assertions disabled (\<^verbatim>\<open>python -O\<close>) the check is not executed and every ratio triple is
  accepted.
\<close>

theorem DatasetSplitter_ratio_check:
  assumes acc: "accurate fp"
    and u: "unit_roundoff fp \<le> 1/16" and eta: "tiny_error fp \<le> 1/16"
    and big: "16 \<le> largest fp"
    and tr: "\<bar>tr\<bar> \<le> 2" and vr: "\<bar>vr\<bar> \<le> 2" and te: "\<bar>te\<bar> \<le> 2"
  shows "(1 / 1000000 + (28 * unit_roundoff fp + 4 * tiny_error fp) < \<bar>tr + vr + te - 1\<bar> \<longrightarrow>
            DatasetSplitter fp False tr vr te seed = Inl AssertionError) \<and>
         (\<bar>tr + vr + te - 1\<bar> < 1 / 1000000 - (28 * unit_roundoff fp + 4 * tiny_error fp) \<longrightarrow>
            DatasetSplitter fp False tr vr te seed =
              Inr \<lparr>train_ratio = tr, valid_ratio = vr, test_ratio = te, random_seed = seed\<rparr>) \<and>
         DatasetSplitter fp True tr vr te seed =
           Inr \<lparr>train_ratio = tr, valid_ratio = vr, test_ratio = te, random_seed = seed\<rparr>"
proof -
  let ?u = "unit_roundoff fp" and ?e = "tiny_error fp"
  have u0: "0 \<le> ?u" and e0: "0 \<le> ?e" using acc by (simp_all add: accurate_def)
  have nine: "(9::real) \<le> largest fp" using big by simp
  have "\<bar>tr + vr\<bar> \<le> 9" using tr vr by linarith
  with acc obtain s1 where s1: "rnd fp (tr + vr) = Fin s1"
    and b1: "\<bar>s1 - (tr + vr)\<bar> \<le> ?u * 9 + ?e" using nine by (rule accurate_bound)
  have "\<bar>s1 + te\<bar> \<le> 9" using b1 tr vr te u eta by linarith
  with acc obtain s2 where s2: "rnd fp (s1 + te) = Fin s2"
    and b2: "\<bar>s2 - (s1 + te)\<bar> \<le> ?u * 9 + ?e" using nine by (rule accurate_bound)
  have m2: "\<bar>s2\<bar> \<le> 8" using b1 b2 tr vr te u eta by linarith
  then have "\<bar>s2 + - 1\<bar> \<le> 9" by linarith
  with acc obtain d where d: "rnd fp (s2 + - 1) = Fin d"
    and b3: "\<bar>d - (s2 + - 1)\<bar> \<le> ?u * 9 + ?e" using nine by (rule accurate_bound)
  have one: "(1::real) \<le> largest fp" using big by simp
  have "\<bar>1 / 1000000 :: real\<bar> \<le> 1" by simp
  with acc obtain c where c: "rnd fp (1 / 1000000) = Fin c"
    and b4: "\<bar>c - 1 / 1000000\<bar> \<le> ?u * 1 + ?e" using one by (rule accurate_bound)
  have dev: "\<bar>d - (tr + vr + te - 1)\<bar> \<le> 27 * ?u + 3 * ?e"
    using b1 b2 b3 by linarith
  have test: "DatasetSplitter fp False tr vr te seed =
      (if \<bar>d\<bar> < c
       then Inr \<lparr>train_ratio = tr, valid_ratio = vr, test_ratio = te, random_seed = seed\<rparr>
       else Inl AssertionError)"
  proof -
    have d': "rnd fp (s2 - 1) = Fin d" using d by simp
    show ?thesis by (simp add: DatasetSplitter_def np_sub_def s1 s2 d' c)
  qed
  have a: "DatasetSplitter fp False tr vr te seed = Inl AssertionError"
    if "1 / 1000000 + (28 * ?u + 4 * ?e) < \<bar>tr + vr + te - 1\<bar>"
  proof -
    have "\<not> \<bar>d\<bar> < c" using that dev b4 by linarith
    then show ?thesis by (simp add: test)
  qed
  have b: "DatasetSplitter fp False tr vr te seed =
      Inr \<lparr>train_ratio = tr, valid_ratio = vr, test_ratio = te, random_seed = seed\<rparr>"
    if "\<bar>tr + vr + te - 1\<bar> < 1 / 1000000 - (28 * ?u + 4 * ?e)"
  proof -
    have "\<bar>d\<bar> < c" using that dev b4 by linarith
    then show ?thesis by (simp add: test)
  qed
  have c': "DatasetSplitter fp True tr vr te seed =
      Inr \<lparr>train_ratio = tr, valid_ratio = vr, test_ratio = te, random_seed = seed\<rparr>"
    by (simp add: DatasetSplitter_def)
  from a b c' show ?thesis by blast
qed

theorem DatasetSplitter_ratio_check_witness:
  "accurate exact_arith \<and> unit_roundoff exact_arith \<le> 1/16 \<and> tiny_error exact_arith \<le> 1/16 \<and>
   16 \<le> largest exact_arith \<and>
   DatasetSplitter exact_arith False (1/2) (1/2) (1/2) 42 = Inl AssertionError \<and>
   DatasetSplitter exact_arith False (8/10) (1/10) (1/10) 42 =
     Inr \<lparr>train_ratio = 8/10, valid_ratio = 1/10, test_ratio = 1/10, random_seed = 42\<rparr>"
proof -
  have h: "unit_roundoff exact_arith \<le> 1/16" "tiny_error exact_arith \<le> 1/16"
    "16 \<le> largest exact_arith"
    by (simp_all add: exact_arith_simps)
  have r: "\<bar>1/2 :: real\<bar> \<le> 2" "\<bar>8/10 :: real\<bar> \<le> 2" "\<bar>1/10 :: real\<bar> \<le> 2" by simp_all
  from DatasetSplitter_ratio_check [OF accurate_exact h r(1) r(1) r(1), of 42]
    DatasetSplitter_ratio_check [OF accurate_exact h r(2) r(3) r(3), of 42]
    accurate_exact h
  show ?thesis by (simp add: exact_arith_simps)
qed

text \<open>
  C6 as stated has every ratio triple whose sum is off by more than 1e-6 rejected. Under
  \<^verbatim>\<open>python -O\<close> the ratios (0.5, 0.5, 0.5) construct a splitter.
\<close>

theorem DatasetSplitter_optimized_accepts:
  "DatasetSplitter exact_arith True (1/2) (1/2) (1/2) 42 =
     Inr \<lparr>train_ratio = 1/2, valid_ratio = 1/2, test_ratio = 1/2, random_seed = 42\<rparr>"
  by (simp add: DatasetSplitter_def)

section \<open>The speaker-aware split\<close>

subsection \<open>Grouping\<close>

lemma map_of_append_sample:
  "map_of (append_sample k s m) k' =
     (if k' = k then Some (lookup_samples m k @ [s]) else map_of m k')"
  by (induction k s m rule: append_sample.induct) (auto simp: lookup_samples_def)

lemma keys_append_sample:
  "map fst (append_sample k s m) = (if k \<in> set (map fst m) then map fst m else map fst m @ [k])"
  by (induction k s m rule: append_sample.induct) auto

lemma lookup_append_sample:
  "lookup_samples (append_sample k s m) k' =
     (if k' = k then lookup_samples m k @ [s] else lookup_samples m k')"
  by (simp add: lookup_samples_def map_of_append_sample)

lemma group_snoc:
  "group_by_speaker (data @ [s]) = append_sample (speaker_key s) s (group_by_speaker data)"
  by (simp add: group_by_speaker_def)

lemma lookup_group:
  "lookup_samples (group_by_speaker data) k = filter (\<lambda>r. speaker_key r = k) data"
proof (induction data rule: rev_induct)
  case Nil
  show ?case by (simp add: group_by_speaker_def lookup_samples_def)
next
  case (snoc s data)
  then show ?case by (auto simp: group_snoc lookup_append_sample)
qed

lemma keys_group_distinct: "distinct (map fst (group_by_speaker data))"
proof (induction data rule: rev_induct)
  case Nil
  show ?case by (simp add: group_by_speaker_def)
next
  case (snoc s data)
  then show ?case by (simp add: group_snoc keys_append_sample)
qed

lemma keys_group_set: "set (map fst (group_by_speaker data)) = speaker_key ` set data"
proof (induction data rule: rev_induct)
  case Nil
  show ?case by (simp add: group_by_speaker_def)
next
  case (snoc s data)
  then show ?case by (auto simp: group_snoc keys_append_sample)
qed

lemma validate_sizes:
  assumes "validate_shuffle_split n t = Inr (n_train, n_test)"
  shows "n_train + n_test = n" and "0 < n_train"
  using assms by (auto simp: validate_shuffle_split_def Let_def split: if_splits)

lemma train_test_split_mset:
  assumes p: "mset (permutation seed (length xs)) = mset [0..<length xs]"
    and r: "train_test_split permutation xs t seed = Inr (tr, te)"
  shows "mset (te @ tr) = mset xs"
proof -
  obtain n_train n_test where v: "validate_shuffle_split (length xs) t = Inr (n_train, n_test)"
    using r by (auto simp: train_test_split_def split: sum.splits)
  let ?p = "permutation seed (length xs)"
  have len: "length ?p = length xs"
    using p by (metis length_upt mset_eq_length minus_nat.diff_0)
  have sz: "n_train + n_test = length xs" using validate_sizes(1)[OF v] .
  have "take n_test ?p @ take n_train (drop n_test ?p) = ?p"
    using len sz by (metis add.commute take_add take_all order_refl)
  moreover have "te = map (\<lambda>i. xs ! i) (take n_test ?p)" "tr = map (\<lambda>i. xs ! i) (take n_train (drop n_test ?p))"
    using r v by (auto simp: train_test_split_def Let_def)
  ultimately have "te @ tr = map (\<lambda>i. xs ! i) ?p"
    by (metis map_append)
  then have "mset (te @ tr) = image_mset (\<lambda>i. xs ! i) (mset ?p)" by simp
  also have "\<dots> = mset (map (\<lambda>i. xs ! i) [0..<length xs])" using p by simp
  also have "\<dots> = mset xs" by (simp add: map_nth)
  finally show ?thesis .
qed

subsection \<open>Multisets of groups\<close>

lemma mset_filter_disj:
  "(\<And>x. \<not> (P x \<and> Q x)) \<Longrightarrow>
   mset (filter (\<lambda>x. P x \<or> Q x) xs) = mset (filter P xs) + mset (filter Q xs)"
  by (induction xs) auto

lemma sum_groups_mset:
  "distinct ks \<Longrightarrow>
   (\<Sum>k\<leftarrow>ks. mset (filter (\<lambda>r. f r = k) xs)) = mset (filter (\<lambda>r. f r \<in> set ks) xs)"
proof (induction ks)
  case Nil
  show ?case by simp
next
  case (Cons k ks)
  have "mset (filter (\<lambda>r. f r = k \<or> f r \<in> set ks) xs) =
        mset (filter (\<lambda>r. f r = k) xs) + mset (filter (\<lambda>r. f r \<in> set ks) xs)"
    using Cons.prems by (intro mset_filter_disj) auto
  with Cons show ?case by simp
qed

lemma mset_collect_cong:
  "mset ks = mset ks' \<Longrightarrow> mset (concat (map g ks)) = mset (concat (map g ks'))"
proof -
  assume h: "mset ks = mset ks'"
  have "\<And>zs. mset (concat (map g zs)) = (\<Sum>k\<in>#mset zs. mset (g k))"
    by (induct_tac zs) auto
  with h show ?thesis by simp
qed

lemma filter_collect:
  "distinct ks \<Longrightarrow>
   filter (\<lambda>r. f r = s) (concat (map (\<lambda>k. filter (\<lambda>r. f r = k) xs) ks)) =
     (if s \<in> set ks then filter (\<lambda>r. f r = s) xs else [])"
proof (induction ks)
  case Nil
  show ?case by simp
next
  case (Cons k ks)
  have a: "filter (\<lambda>x. f x = k \<and> f x = s) xs =
           (if s = k then filter (\<lambda>r. f r = s) xs else [])"
    by (induction xs) auto
  from Cons show ?case by (auto simp: a)
qed

lemma keys_collect:
  "f ` set (concat (map (\<lambda>k. filter (\<lambda>r. f r = k) xs) ks)) \<subseteq> set ks"
  by auto

subsection \<open>The partition\<close>

lemma split_by_speaker_Inr:
  assumes "split_by_speaker permutation self data = Inr (train, valid, test)"
  obtains trs tmp t vs ts where
    "train_test_split permutation (map fst (group_by_speaker data))
       (valid_ratio self + test_ratio self) (random_seed self) = Inr (trs, tmp)"
    "train_test_split permutation tmp t (random_seed self) = Inr (vs, ts)"
    "train = concat (map (lookup_samples (group_by_speaker data)) trs)"
    "valid = concat (map (lookup_samples (group_by_speaker data)) vs)"
    "test = concat (map (lookup_samples (group_by_speaker data)) ts)"
  using assms unfolding split_by_speaker_def Let_def
  by (auto split: sum.splits prod.splits)

text \<open>
  C1 (as amended). Whenever \<^verbatim>\<open>split_by_speaker\<close> returns, for any generator that yields
  permutations of \<open>0..<n\<close>: no speaker id occurs in two of the three lists, the three lists
  together hold exactly the input records (as a multiset, so every record lies in exactly
  one list), and the records of each speaker are in their input order.
\<close>

theorem split_by_speaker_partition:
  assumes perm: "\<forall>n. mset (permutation (random_seed self) n) = mset [0..<n]"
    and res: "split_by_speaker permutation self data = Inr (train, valid, test)"
  shows "speaker_key ` set train \<inter> speaker_key ` set valid = {} \<and>
         speaker_key ` set train \<inter> speaker_key ` set test = {} \<and>
         speaker_key ` set valid \<inter> speaker_key ` set test = {} \<and>
         mset (train @ valid @ test) = mset data \<and>
         (\<forall>s. filter (\<lambda>r. speaker_key r = s) (train @ valid @ test) =
              filter (\<lambda>r. speaker_key r = s) data)"
proof -
  let ?g = "group_by_speaker data"
  let ?sp = "map fst ?g"
  let ?grp = "\<lambda>k. filter (\<lambda>r. speaker_key r = k) data"
  from res obtain trs tmp t vs ts where
    s1: "train_test_split permutation ?sp (valid_ratio self + test_ratio self) (random_seed self)
           = Inr (trs, tmp)"
    and s2: "train_test_split permutation tmp t (random_seed self) = Inr (vs, ts)"
    and tr: "train = concat (map (lookup_samples ?g) trs)"
    and va: "valid = concat (map (lookup_samples ?g) vs)"
    and te: "test = concat (map (lookup_samples ?g) ts)"
    by (rule split_by_speaker_Inr)
  have lk: "lookup_samples ?g = ?grp"
    by (rule ext) (rule lookup_group)
  have m1: "mset (tmp @ trs) = mset ?sp"
    using perm s1 by (intro train_test_split_mset) auto
  have m2: "mset (ts @ vs) = mset tmp"
    using perm s2 by (intro train_test_split_mset) auto
  have all: "mset (trs @ vs @ ts) = mset ?sp"
    using m1 m2 by (simp add: ac_simps)
  have dist: "distinct (trs @ vs @ ts)"
    using all keys_group_distinct [of data] by (metis mset_eq_imp_distinct_iff)
  have d1: "distinct trs" and d2: "distinct vs" and d3: "distinct ts"
    and x12: "set trs \<inter> set vs = {}" and x13: "set trs \<inter> set ts = {}"
    and x23: "set vs \<inter> set ts = {}"
    using dist by auto
  have k1: "speaker_key ` set train \<subseteq> set trs"
    and k2: "speaker_key ` set valid \<subseteq> set vs"
    and k3: "speaker_key ` set test \<subseteq> set ts"
    unfolding tr va te lk by auto
  have c1: "speaker_key ` set train \<inter> speaker_key ` set valid = {}"
    using k1 k2 x12 by blast
  have c2: "speaker_key ` set train \<inter> speaker_key ` set test = {}"
    using k1 k3 x13 by blast
  have c3: "speaker_key ` set valid \<inter> speaker_key ` set test = {}"
    using k2 k3 x23 by blast
  have cat: "train @ valid @ test = concat (map ?grp (trs @ vs @ ts))"
    unfolding tr va te lk by simp
  have "mset (train @ valid @ test) = mset (concat (map ?grp ?sp))"
    unfolding cat using all by (rule mset_collect_cong)
  also have "\<dots> = (\<Sum>k\<leftarrow>?sp. mset (?grp k))"
    by (simp add: mset_concat comp_def)
  also have "\<dots> = mset (filter (\<lambda>r. speaker_key r \<in> set ?sp) data)"
    using keys_group_distinct by (rule sum_groups_mset)
  also have "\<dots> = mset data"
    by (simp add: keys_group_set del: set_map)
  finally have c4: "mset (train @ valid @ test) = mset data" .
  have c5: "filter (\<lambda>r. speaker_key r = s) (train @ valid @ test) = ?grp s" for s
  proof (cases "s \<in> set (trs @ vs @ ts)")
    case True
    then show ?thesis unfolding cat using filter_collect [OF dist, of speaker_key s data] by simp
  next
    case False
    then have "s \<notin> speaker_key ` set data"
      using all keys_group_set [of data] by (metis mset_eq_setD)
    then have "?grp s = []" by (auto simp: filter_empty_conv)
    with False show ?thesis
      unfolding cat using filter_collect [OF dist, of speaker_key s data] by simp
  qed
  from c1 c2 c3 c4 c5 show ?thesis by blast
qed

theorem split_by_speaker_partition_witness:
  "(\<forall>n. mset (demo_permutation (random_seed default_splitter) n) = mset [0..<n]) \<and>
   split_by_speaker demo_permutation default_splitter demo_corpus =
     Inr ([utterance ''d1'' ''D'', utterance ''c1'' ''C'', utterance ''b1'' ''B'',
           utterance ''b2'' ''B'', utterance ''a1'' ''A'', utterance ''a2'' ''A''],
          [utterance ''f1'' ''F''], [utterance ''e1'' ''E'']) \<and>
   mset ([utterance ''d1'' ''D'', utterance ''c1'' ''C'', utterance ''b1'' ''B'',
          utterance ''b2'' ''B'', utterance ''a1'' ''A'', utterance ''a2'' ''A''] @
         [utterance ''f1'' ''F''] @ [utterance ''e1'' ''E'']) = mset demo_corpus \<and>
   filter (\<lambda>r. speaker_key r = ''B'')
     ([utterance ''d1'' ''D'', utterance ''c1'' ''C'', utterance ''b1'' ''B'',
       utterance ''b2'' ''B'', utterance ''a1'' ''A'', utterance ''a2'' ''A''] @
      [utterance ''f1'' ''F''] @ [utterance ''e1'' ''E'']) =
   filter (\<lambda>r. speaker_key r = ''B'') demo_corpus"
proof -
  have p: "\<forall>n. mset (demo_permutation (random_seed default_splitter) n) = mset [0..<n]"
    by (simp add: demo_permutation_def)
  have r: "split_by_speaker demo_permutation default_splitter demo_corpus =
     Inr ([utterance ''d1'' ''D'', utterance ''c1'' ''C'', utterance ''b1'' ''B'',
           utterance ''b2'' ''B'', utterance ''a1'' ''A'', utterance ''a2'' ''A''],
          [utterance ''f1'' ''F''], [utterance ''e1'' ''E''])"
    by code_simp
  from split_by_speaker_partition [OF p r] p r show ?thesis by blast
qed

text \<open>
  C1 as stated has the split return for every input and ratio triple summing to 1.0. It
  does not: with the
  default ratios (0.8, 0.1, 0.1) and a corpus of two speakers the second library split
  is asked to split a single speaker and raises.
\<close>

theorem split_by_speaker_small_corpus_raises:
  "DatasetSplitter exact_arith False (8/10) (1/10) (1/10) 42 = Inr default_splitter \<and>
   split_by_speaker demo_permutation default_splitter
     [utterance ''a1'' ''A'', utterance ''a2'' ''A'', utterance ''b1'' ''B''] = Inl ValueError"
proof -
  have "DatasetSplitter exact_arith False (8/10) (1/10) (1/10) 42 = Inr default_splitter"
    by (simp add: DatasetSplitter_def default_splitter_def np_sub_def exact_arith_simps)
  moreover have "split_by_speaker demo_permutation default_splitter
     [utterance ''a1'' ''A'', utterance ''a2'' ''A'', utterance ''b1'' ''B''] = Inl ValueError"
    by code_simp
  ultimately show ?thesis by simp
qed

section \<open>Degenerate ratios\<close>

text \<open>
  The claim C2 as stated (ratios (1.0, 0, 0) on two records of speaker A and one of
  speaker B put all three records in train and do not raise) fails: the split raises.
\<close>

theorem split_by_speaker_all_train_raises:
  "split_by_speaker demo_permutation
     \<lparr>train_ratio = 1, valid_ratio = 0, test_ratio = 0, random_seed = 42\<rparr>
     [utterance ''a1'' ''A'', utterance ''a2'' ''A'', utterance ''b1'' ''B''] \<noteq>
   Inr ([utterance ''a1'' ''A'', utterance ''a2'' ''A'', utterance ''b1'' ''B''], [], []) \<and>
   split_by_speaker demo_permutation
     \<lparr>train_ratio = 1, valid_ratio = 0, test_ratio = 0, random_seed = 42\<rparr>
     [utterance ''a1'' ''A'', utterance ''a2'' ''A'', utterance ''b1'' ''B''] = Inl ValueError"
  by (simp add: split_by_speaker_def train_test_split_def validate_shuffle_split_def)

text \<open>
  C2 (as amended). With ratios (1.0, 0, 0) the splitter is constructed, and the
  speaker-aware split then raises on every input, whatever the generator: the first
  library split is called with a test fraction of 0, which it rejects. No list is returned.
\<close>

theorem split_by_speaker_zero_test_fraction:
  "DatasetSplitter exact_arith optimized 1 0 0 seed =
     Inr \<lparr>train_ratio = 1, valid_ratio = 0, test_ratio = 0, random_seed = seed\<rparr> \<and>
   split_by_speaker permutation
     \<lparr>train_ratio = 1, valid_ratio = 0, test_ratio = 0, random_seed = seed\<rparr> data =
   Inl ValueError"
  by (simp add: DatasetSplitter_def np_sub_def exact_arith_simps split_by_speaker_def
      train_test_split_def validate_shuffle_split_def)

section \<open>Peak normalization\<close>

lemma peak_nonneg: "xs \<noteq> [] \<Longrightarrow> 0 \<le> Max (abs ` set xs)" for xs :: "real list"
proof -
  assume "xs \<noteq> []"
  then obtain x where "x \<in> set xs" by (cases xs) auto
  then have "\<bar>x\<bar> \<le> Max (abs ` set xs)" by (intro Max_ge) auto
  then show ?thesis by linarith
qed


lemma rounding_mono:
  assumes "rounding fp" and "x \<le> y" and "rnd fp x = Fin a" and "rnd fp y = Fin b"
  shows "a \<le> b"
proof -
  from assms(1,2) have "np_le (rnd fp x) (rnd fp y)" by (simp add: rounding_def)
  with assms(3,4) show ?thesis by simp
qed

lemma rounding_nonneg:
  assumes "rounding fp" and "0 \<le> x" and "rnd fp x = Fin a"
  shows "0 \<le> a"
proof -
  have z: "rnd fp 0 = Fin 0" using assms(1) by (simp add: rounding_def)
  show ?thesis by (rule rounding_mono [OF assms(1) assms(2) z assms(3)])
qed

lemma rounding_neg:
  assumes "rounding fp" and "rnd fp x = Fin a"
  shows "rnd fp (- x) = Fin (- a)"
  using assms by (simp add: rounding_def)

lemma rounding_sandwich:
  assumes rd: "rounding fp" and lo: "- m \<le> x" and hi: "x \<le> m" and m: "rnd fp m = Fin r"
  shows "\<exists>y. rnd fp x = Fin y \<and> \<bar>y\<bar> \<le> r"
proof -
  have nm: "rnd fp (- m) = Fin (- r)" using rd m by (rule rounding_neg)
  have l: "np_le (Fin (- r)) (rnd fp x)"
    using rd lo nm by (metis rounding_def)
  have h: "np_le (rnd fp x) (Fin r)"
    using rd hi m by (metis rounding_def)
  have nn: "rnd fp x \<noteq> NaN" using rd by (simp add: rounding_def)
  show ?thesis
  proof (cases "rnd fp x")
    case (Fin y)
    with l h show ?thesis by simp
  next
    case PInf
    with h show ?thesis by simp
  next
    case NInf
    with l show ?thesis by simp
  next
    case NaN
    with nn show ?thesis by simp
  qed
qed

lemma map_Fin_bounded:
  assumes "\<And>x. x \<in> set xs \<Longrightarrow> \<exists>y. f x = Fin y \<and> \<bar>y\<bar> \<le> r"
  shows "\<exists>ys. map f xs = map Fin ys \<and> (\<forall>y\<in>set ys. \<bar>y\<bar> \<le> r)"
  using assms
proof (induction xs)
  case Nil
  show ?case by simp
next
  case (Cons x xs)
  then obtain ys where ys: "map f xs = map Fin ys" "\<forall>y\<in>set ys. \<bar>y\<bar> \<le> r" by auto
  from Cons.prems obtain y where y: "f x = Fin y" "\<bar>y\<bar> \<le> r" by auto
  have "map f (x # xs) = map Fin (y # ys)" using ys y by simp
  moreover have "\<forall>z\<in>set (y # ys). \<bar>z\<bar> \<le> r" using ys y by simp
  ultimately show ?case by blast
qed





section \<open>Volume perturbation\<close>

lemma fold_np_maximum_Fin:
  "fold np_maximum (map Fin ys) (Fin y) = Fin (fold max ys y)"
  by (induction ys arbitrary: y) auto

lemma np_max_abs_Fin:
  assumes "xs \<noteq> []"
  shows "np_max (map np_abs (map Fin xs)) = Inr (Fin (Max (abs ` set xs)))"
proof -
  obtain y ys where xs: "xs = y # ys" using assms by (cases xs) auto
  have "np_max (map np_abs (map Fin xs)) = Inr (fold np_maximum (map Fin (map abs ys)) (Fin \<bar>y\<bar>))"
    by (simp add: xs comp_def)
  also have "\<dots> = Inr (Fin (fold max (map abs ys) \<bar>y\<bar>))"
    by (simp only: fold_np_maximum_Fin)
  also have "fold max (map abs ys) \<bar>y\<bar> = Max (set (\<bar>y\<bar> # map abs ys))"
    by (simp only: Max.set_eq_fold)
  also have "set (\<bar>y\<bar> # map abs ys) = abs ` set xs" by (simp add: xs)
  finally show ?thesis .
qed

text \<open>
  A finite buffer divided by its nonzero peak and multiplied by the float 0.95: the result
  is finite and its peak is that float, exactly.
\<close>

lemma peak_scaled_out:
  fixes xs :: "real list"
  assumes rd: "rounding fp" and ne: "xs \<noteq> []" and nz: "Max (abs ` set xs) \<noteq> 0"
    and c: "rnd fp (95/100) = Fin c"
  shows "\<exists>out. map (\<lambda>x. np_mul fp (np_div fp (Fin x) (Fin (Max (abs ` set xs)))) (Fin c)) xs =
                 map Fin out \<and> Max (abs ` set out) = c"
proof -
  let ?P = "Max (abs ` set xs)"
  have pos: "0 < ?P" using peak_nonneg [OF ne] nz by simp
  have one: "rnd fp 1 = Fin 1" using rd by (simp add: rounding_def)
  have cc: "rnd fp c = Fin c" using rd c by (metis rounding_def)
  have c0: "0 \<le> c" using rd _ c by (rule rounding_nonneg) simp
  have each: "\<exists>y. np_mul fp (np_div fp (Fin x) (Fin ?P)) (Fin c) = Fin y \<and> \<bar>y\<bar> \<le> c"
    if "x \<in> set xs" for x
  proof -
    have "\<bar>x\<bar> \<le> ?P" using that by (intro Max_ge) auto
    then have "\<bar>x / ?P\<bar> \<le> 1" using pos by simp
    then have "- 1 \<le> x / ?P" "x / ?P \<le> 1" by linarith+
    with rd obtain q where q: "rnd fp (x / ?P) = Fin q" "\<bar>q\<bar> \<le> 1"
      using one rounding_sandwich by blast
    have "\<bar>q * c\<bar> \<le> 1 * c" unfolding abs_mult using q(2) c0 by (intro mult_mono) auto
    then have "- c \<le> q * c" "q * c \<le> c" by linarith+
    with rd obtain y where "rnd fp (q * c) = Fin y" "\<bar>y\<bar> \<le> c"
      using cc rounding_sandwich by blast
    then show ?thesis using q pos by simp
  qed
  then obtain out where out:
    "map (\<lambda>x. np_mul fp (np_div fp (Fin x) (Fin ?P)) (Fin c)) xs = map Fin out"
    and bd: "\<forall>y\<in>set out. \<bar>y\<bar> \<le> c"
    using map_Fin_bounded [of xs "\<lambda>x. np_mul fp (np_div fp (Fin x) (Fin ?P)) (Fin c)" c]
    by blast
  have "?P \<in> abs ` set xs" using ne by (intro Max_in) auto
  then obtain x0 where x0: "x0 \<in> set xs" "\<bar>x0\<bar> = ?P" by auto
  have v: "np_mul fp (np_div fp (Fin x0) (Fin ?P)) (Fin c) = Fin c \<or>
           np_mul fp (np_div fp (Fin x0) (Fin ?P)) (Fin c) = Fin (- c)"
  proof (cases "0 \<le> x0")
    case True
    then have "x0 / ?P = 1" using x0 pos by simp
    then show ?thesis using pos one cc by simp
  next
    case False
    then have "x0 = - ?P" using x0(2) by linarith
    then have "x0 / ?P = - 1" using pos by simp
    moreover have "rnd fp (- 1) = Fin (- 1)" using rounding_neg [OF rd one] .
    moreover have "rnd fp (- c) = Fin (- c)" using rounding_neg [OF rd cc] .
    ultimately show ?thesis using pos by simp
  qed
  have "np_mul fp (np_div fp (Fin x0) (Fin ?P)) (Fin c) \<in> set (map Fin out)"
    using x0(1) out by (metis (no_types, lifting) image_eqI list.set_map)
  with v have "c \<in> set out \<or> - c \<in> set out" by auto
  then have "c \<in> abs ` set out"
  proof
    assume "c \<in> set out"
    moreover have "\<bar>c\<bar> = c" using c0 by simp
    ultimately show ?thesis by (metis image_eqI)
  next
    assume "- c \<in> set out"
    moreover have "\<bar>- c\<bar> = c" using c0 by simp
    ultimately show ?thesis by (metis image_eqI)
  qed
  moreover have "\<And>z. z \<in> abs ` set out \<Longrightarrow> z \<le> c" using bd by auto
  ultimately have "Max (abs ` set out) = c" by (intro Max_eqI) auto
  with out show ?thesis by blast
qed

text \<open>
  C9 (as amended). On a non-empty buffer, when \<^verbatim>\<open>10 ** (gain_db / 20.0)\<close> returns a
  finite gain and the products of the samples and the gain are finite: if the peak of the
  scaled buffer exceeds 1.0, \<^verbatim>\<open>volume_perturbation\<close> returns the scaled buffer divided by
  its peak and multiplied by 0.95, and the peak of the result is the float 0.95 exactly;
  if the peak does not exceed 1.0, it returns the scaled buffer itself. A gain of at most
  0 dB on a buffer that peaks at 1.0 or below is never renormalized.
\<close>

theorem volume_perturbation_gain:
  assumes rd: "rounding fp" and ne: "audio \<noteq> []"
    and g: "pow10 fp (np_div fp (Fin gain_db) (Fin 20)) = Inr (Fin g)"
    and sc: "map (\<lambda>x. rnd fp (x * g)) audio = map Fin scaled"
    and c: "rnd fp (95/100) = Fin c"
  shows "(1 < Max (abs ` set scaled) \<longrightarrow>
           (\<exists>out. volume_perturbation fp audio gain_db = Inr (map Fin out) \<and>
              map Fin out =
                map (\<lambda>x. np_mul fp (np_div fp (Fin x) (Fin (Max (abs ` set scaled)))) (Fin c))
                  scaled \<and>
              Max (abs ` set out) = c)) \<and>
         (Max (abs ` set scaled) \<le> 1 \<longrightarrow>
            volume_perturbation fp audio gain_db = Inr (map Fin scaled)) \<and>
         (attenuating fp \<and> gain_db \<le> 0 \<and> Max (abs ` set audio) \<le> 1 \<longrightarrow>
            volume_perturbation fp audio gain_db = Inr (map Fin scaled))"
proof -
  let ?P = "Max (abs ` set scaled)"
  have len: "length scaled = length audio"
    using sc by (metis length_map)
  then have sne: "scaled \<noteq> []" using ne by auto
  have aug: "map (\<lambda>x. np_mul fp (Fin x) (Fin g)) audio = map Fin scaled"
    using sc by simp
  have pk: "np_max (map np_abs (map Fin scaled)) = Inr (Fin ?P)"
    using sne by (rule np_max_abs_Fin)
  have unfold: "volume_perturbation fp audio gain_db =
      (if 1 < ?P
       then Inr (map (\<lambda>x. np_mul fp (np_div fp x (Fin ?P)) (Fin c)) (map Fin scaled))
       else Inr (map Fin scaled))"
    by (simp only: volume_perturbation_def g sum.case Let_def aug pk c np_lt.simps)
  have quiet: "volume_perturbation fp audio gain_db = Inr (map Fin scaled)" if "?P \<le> 1"
  proof -
    from that have "\<not> 1 < ?P" by linarith
    then show ?thesis unfolding unfold by (simp only: if_False)
  qed
  have loud: "\<exists>out. volume_perturbation fp audio gain_db = Inr (map Fin out) \<and>
              map Fin out = map (\<lambda>x. np_mul fp (np_div fp (Fin x) (Fin ?P)) (Fin c)) scaled \<and>
              Max (abs ` set out) = c" if big: "1 < ?P"
  proof -
    have nz: "?P \<noteq> 0" using big by linarith
    from peak_scaled_out [OF rd sne nz c] obtain out where
      o: "map (\<lambda>x. np_mul fp (np_div fp (Fin x) (Fin ?P)) (Fin c)) scaled = map Fin out"
      and m: "Max (abs ` set out) = c" by blast
    have "volume_perturbation fp audio gain_db =
            Inr (map (\<lambda>x. np_mul fp (np_div fp (Fin x) (Fin ?P)) (Fin c)) scaled)"
      unfolding unfold using big by (simp add: comp_def del: set_map)
    with o m show ?thesis by (intro exI [of _ out]) simp
  qed
  have down: "?P \<le> 1" if a: "attenuating fp \<and> gain_db \<le> 0 \<and> Max (abs ` set audio) \<le> 1"
  proof -
    have "gain_db / 20 \<le> 0" using a by simp
    then have "np_le (rnd fp (gain_db / 20)) (rnd fp 0)" using rd by (metis rounding_def)
    moreover have "rnd fp 0 = Fin 0" using rd by (metis rounding_def)
    ultimately have "np_le (np_div fp (Fin gain_db) (Fin 20)) (Fin 0)"
      by simp
    with a g obtain v where "Fin g = Fin v" "0 \<le> v" "v \<le> 1"
      unfolding attenuating_def by blast
    then have g0: "0 \<le> g" and g1: "g \<le> 1" by simp_all
    have one: "rnd fp 1 = Fin 1" using rd by (simp add: rounding_def)
    have "\<bar>s\<bar> \<le> 1" if "s \<in> set scaled" for s
    proof -
      from that have "Fin s \<in> set (map (\<lambda>x. rnd fp (x * g)) audio)"
        using sc by simp
      then obtain x where x: "x \<in> set audio" "rnd fp (x * g) = Fin s" by auto
      have "\<bar>x\<bar> \<le> Max (abs ` set audio)" using x(1) by (intro Max_ge) auto
      then have "\<bar>x\<bar> \<le> 1" using a by linarith
      then have "\<bar>x\<bar> * g \<le> 1 * 1" using g0 g1 by (intro mult_mono) auto
      then have "\<bar>x * g\<bar> \<le> 1" using g0 by (simp add: abs_mult)
      then have "- 1 \<le> x * g" "x * g \<le> 1" by linarith+
      with rd obtain y where "rnd fp (x * g) = Fin y" "\<bar>y\<bar> \<le> 1"
        using one rounding_sandwich by blast
      with x(2) show ?thesis by simp
    qed
    then show ?thesis using sne by (auto simp: Max_le_iff)
  qed
  from quiet loud down show ?thesis by blast
qed

theorem volume_perturbation_gain_witness:
  "rounding exact_arith \<and> attenuating exact_arith \<and> [1/2, - 2] \<noteq> ([] :: real list) \<and>
   pow10 exact_arith (np_div exact_arith (Fin 20) (Fin 20)) = Inr (Fin 10) \<and>
   map (\<lambda>x. rnd exact_arith (x * 10)) [1/2, - 2] = map Fin [5, - 20] \<and>
   rnd exact_arith (95/100) = Fin (95/100) \<and>
   volume_perturbation exact_arith [1/2, - 2] 20 = Inr [Fin (19/80), Fin (- (19/20))] \<and>
   Max (abs ` set [19/80, - (19/20) :: real]) = 95/100 \<and>
   volume_perturbation exact_arith [1/2, - 1/4] 0 = Inr [Fin (1/2), Fin (- 1/4)]"
proof -
  have a: "[1/2, - 2] \<noteq> ([] :: real list)" and b: "[1/2, - 1/4] \<noteq> ([] :: real list)"
    by simp_all
  have g1: "pow10 exact_arith (np_div exact_arith (Fin 20) (Fin 20)) = Inr (Fin 10)"
    and g2: "pow10 exact_arith (np_div exact_arith (Fin 0) (Fin 20)) = Inr (Fin 1)"
    by (simp_all add: exact_arith_simps)
  have s1: "map (\<lambda>x. rnd exact_arith (x * 10)) [1/2, - 2] = map Fin [5, - 20]"
    and s2: "map (\<lambda>x. rnd exact_arith (x * 1)) [1/2, - 1/4] = map Fin [1/2, - 1/4]"
    by (simp_all add: exact_arith_simps)
  have c: "rnd exact_arith (95/100) = Fin (95/100)" by (simp add: exact_arith_simps)
  from volume_perturbation_gain [OF rounding_exact a g1 s1 c]
    volume_perturbation_gain [OF rounding_exact b g2 s2 c]
    rounding_exact attenuating_exact g1 s1 c
  show ?thesis by (auto simp: exact_arith_simps)
qed

lemma ten_powr_minus_one: "(10::real) powr - 1 = 1 / 10"
  by (simp add: powr_minus_divide)

text \<open>
  C9 as stated has quieter gains never renormalized, on every buffer and for every gain.
  The buffer [100.0] at -20 dB is scaled to [10.0], whose peak exceeds 1.0, and is
  renormalized to [0.95]; on the empty buffer \<^verbatim>\<open>np.max\<close> raises; and at a gain of
  7000 dB the power \<^verbatim>\<open>10 ** 350.0\<close> raises, so that no sample is multiplied.
\<close>

theorem volume_perturbation_quieter_gain_renormalized:
  "pow10 exact_arith (np_div exact_arith (Fin (- 20)) (Fin 20)) = Inr (Fin (1/10)) \<and>
   map (\<lambda>x. np_mul exact_arith (Fin x) (Fin (1/10))) [100] = [Fin 10] \<and>
   volume_perturbation exact_arith [100] (- 20) = Inr [Fin (95/100)] \<and>
   volume_perturbation exact_arith [] (- 20) = Inl ValueError \<and>
   volume_perturbation double_range [1/2] 7000 = Inl OverflowError"
  by (simp add: volume_perturbation_def exact_arith_simps double_range_simps
      ten_powr_minus_one powr_numeral)

section \<open>Background noise\<close>

subsection \<open>Tiling\<close>














subsection \<open>Mixing at a target signal-to-noise ratio\<close>


lemma exact_mean_eval:
  "mean exact_arith [] = NaN"
  "mean exact_arith [Fin a, Fin b] = Fin ((a + b) / 2)"
  "mean exact_arith [Fin a, Fin b, Fin c] = Fin ((a + b + c) / 3)"
  by (simp_all add: exact_arith_mean exact_arith_simps)



subsection \<open>Zero noise power\<close>

text \<open>
  C3. With a noise buffer of zero power, \<^verbatim>\<open>add_background_noise\<close> reports no error:
  the signal power is divided by zero, the scale is infinite, infinity times the zero
  noise samples is NaN, and the function returns a buffer of NaN samples.
\<close>

theorem add_background_noise_zero_noise_power:
  "add_background_noise exact_arith [1/2, - 1/2] [0, 0] 15 = Inr [NaN, NaN]"
  by (simp add: add_background_noise_def tile_noise_def mean_square_def exact_mean_eval
      scale_to_peak_def inf_times_def exact_arith_simps)

section \<open>The augmentation catalogue\<close>

lemma fst_write_variant:
  "fst (write_variant d b suf tag buf st) = fst st @ [(variant_path d b suf, buf)]"
  by (simp add: write_variant_def Let_def)

lemma snd_write_variant:
  "snd (write_variant d b suf tag buf st) = snd st @ [(variant_path d b suf, tag)]"
  by (simp add: write_variant_def Let_def)

lemma write_variant_pair:
  "write_variant d b suf tag buf (w, f) =
     (w @ [(variant_path d b suf, buf)], f @ [(variant_path d b suf, tag)])"
  by (simp add: write_variant_def Let_def)

lemma variant_path_inj: "inj (variant_path d b)"
  by (simp add: inj_def variant_path_def)

text \<open>
  C8 (as amended). Whenever every requested transform returns (the time stretch at rates
  0.9 and 1.1, the white noise at levels 0.003 and 0.007, the gain at -3 and +3 dB),
  \<^verbatim>\<open>augment_audio\<close> writes the unmodified buffer and, for each requested technique of
  the catalogue, the two outputs of its transform at those parameters, in the order
  speed, noise, volume, and returns the list of their paths with the tags \<open>original\<close>,
  \<open>speed_0.9\<close>, \<open>speed_1.1\<close>, \<open>noise_0.003\<close>, \<open>noise_0.007\<close>, \<open>volume_-3db\<close>,
  \<open>volume_3db\<close>: \<open>1 + 2k\<close> entries for \<open>k\<close> requested techniques, with pairwise distinct
  paths, and nothing for a technique that is not requested.
\<close>

theorem augment_audio_catalogue:
  assumes sp: "''speed'' \<in> set techniques \<longrightarrow>
                 time_stretch audio (9/10) = Inr a1 \<and> time_stretch audio (11/10) = Inr a2"
    and no: "''noise'' \<in> set techniques \<longrightarrow>
               add_white_noise fp audio (map (normal (3/1000)) [0..<length audio]) = Inr n1 \<and>
               add_white_noise fp audio (map (normal (7/1000)) [0..<length audio]) = Inr n2"
    and vo: "''volume'' \<in> set techniques \<longrightarrow>
               volume_perturbation fp audio (- 3) = Inr v1 \<and>
               volume_perturbation fp audio 3 = Inr v2"
  shows "\<exists>written files.
           augment_audio fp time_stretch normal audio output_dir base_name techniques =
             (written, Inr files) \<and>
           written =
             (variant_path output_dir base_name ''_original.wav'', map Fin audio) #
             (if ''speed'' \<in> set techniques
              then [(variant_path output_dir base_name ''_speed0.9.wav'', map Fin a1),
                    (variant_path output_dir base_name ''_speed1.1.wav'', map Fin a2)]
              else []) @
             (if ''noise'' \<in> set techniques
              then [(variant_path output_dir base_name ''_noise0.003.wav'', n1),
                    (variant_path output_dir base_name ''_noise0.007.wav'', n2)]
              else []) @
             (if ''volume'' \<in> set techniques
              then [(variant_path output_dir base_name ''_vol-3db.wav'', v1),
                    (variant_path output_dir base_name ''_vol3db.wav'', v2)]
              else []) \<and>
           files =
             (variant_path output_dir base_name ''_original.wav'', ''original'') #
             (if ''speed'' \<in> set techniques
              then [(variant_path output_dir base_name ''_speed0.9.wav'', ''speed_0.9''),
                    (variant_path output_dir base_name ''_speed1.1.wav'', ''speed_1.1'')]
              else []) @
             (if ''noise'' \<in> set techniques
              then [(variant_path output_dir base_name ''_noise0.003.wav'', ''noise_0.003''),
                    (variant_path output_dir base_name ''_noise0.007.wav'', ''noise_0.007'')]
              else []) @
             (if ''volume'' \<in> set techniques
              then [(variant_path output_dir base_name ''_vol-3db.wav'', ''volume_-3db''),
                    (variant_path output_dir base_name ''_vol3db.wav'', ''volume_3db'')]
              else []) \<and>
           length files = 1 + 2 * card ({''speed'', ''noise'', ''volume''} \<inter> set techniques) \<and>
           distinct (map fst files) \<and>
           map fst written = map fst files"
proof -
  let ?P = "variant_path output_dir base_name"
  let ?w0 = "[(?P ''_original.wav'', map Fin audio)]"
  let ?f0 = "[(?P ''_original.wav'', ''original'')]"
  let ?wA = "if ''speed'' \<in> set techniques
             then [(?P ''_speed0.9.wav'', map Fin a1), (?P ''_speed1.1.wav'', map Fin a2)] else []"
  let ?fA = "if ''speed'' \<in> set techniques
             then [(?P ''_speed0.9.wav'', ''speed_0.9''), (?P ''_speed1.1.wav'', ''speed_1.1'')] else []"
  let ?wB = "if ''noise'' \<in> set techniques
             then [(?P ''_noise0.003.wav'', n1), (?P ''_noise0.007.wav'', n2)] else []"
  let ?fB = "if ''noise'' \<in> set techniques
             then [(?P ''_noise0.003.wav'', ''noise_0.003''), (?P ''_noise0.007.wav'', ''noise_0.007'')]
             else []"
  let ?wC = "if ''volume'' \<in> set techniques
             then [(?P ''_vol-3db.wav'', v1), (?P ''_vol3db.wav'', v2)] else []"
  let ?fC = "if ''volume'' \<in> set techniques
             then [(?P ''_vol-3db.wav'', ''volume_-3db''), (?P ''_vol3db.wav'', ''volume_3db'')] else []"
  have st0: "write_variant output_dir base_name ''_original.wav'' ''original'' (map Fin audio)
               ([], []) = (?w0, ?f0)"
    by (simp add: write_variant_pair)
  have r1: "(if ''speed'' \<in> set techniques
             then speed_loop time_stretch audio output_dir base_name
                    [(9/10, ''0.9''), (11/10, ''1.1'')] (?w0, ?f0)
             else Inr (?w0, ?f0)) = Inr (?w0 @ ?wA, ?f0 @ ?fA)"
    using sp by (simp add: speed_perturbation_def write_variant_pair)
  have r2: "(if ''noise'' \<in> set techniques
             then noise_loop fp normal audio output_dir base_name
                    [(3/1000, ''0.003''), (7/1000, ''0.007'')] (?w0 @ ?wA, ?f0 @ ?fA)
             else Inr (?w0 @ ?wA, ?f0 @ ?fA)) = Inr ((?w0 @ ?wA) @ ?wB, (?f0 @ ?fA) @ ?fB)"
    using no by (simp add: write_variant_pair)
  have r3: "(if ''volume'' \<in> set techniques
             then volume_loop fp audio output_dir base_name [(- 3, ''-3''), (3, ''3'')]
                    ((?w0 @ ?wA) @ ?wB, (?f0 @ ?fA) @ ?fB)
             else Inr ((?w0 @ ?wA) @ ?wB, (?f0 @ ?fA) @ ?fB)) =
            Inr (((?w0 @ ?wA) @ ?wB) @ ?wC, ((?f0 @ ?fA) @ ?fB) @ ?fC)"
    using vo by (simp add: write_variant_pair)
  have res: "augment_audio fp time_stretch normal audio output_dir base_name techniques =
               (((?w0 @ ?wA) @ ?wB) @ ?wC, Inr (((?f0 @ ?fA) @ ?fB) @ ?fC))"
    by (simp only: augment_audio_def Let_def st0 r1 sum.case r2 r3 fst_conv snd_conv)
  let ?sufs = "''_original.wav'' #
      (if ''speed'' \<in> set techniques then [''_speed0.9.wav'', ''_speed1.1.wav''] else []) @
      (if ''noise'' \<in> set techniques then [''_noise0.003.wav'', ''_noise0.007.wav''] else []) @
      (if ''volume'' \<in> set techniques then [''_vol-3db.wav'', ''_vol3db.wav''] else [])"
  have paths: "map fst (((?f0 @ ?fA) @ ?fB) @ ?fC) = map ?P ?sufs" by simp
  have "inj_on ?P (set ?sufs)" using variant_path_inj by (rule inj_on_subset) simp
  moreover have "distinct ?sufs" by auto
  ultimately have dist: "distinct (map fst (((?f0 @ ?fA) @ ?fB) @ ?fC))"
    unfolding paths by (simp only: distinct_map)
  have len: "length (((?f0 @ ?fA) @ ?fB) @ ?fC) =
      1 + 2 * card ({''speed'', ''noise'', ''volume''} \<inter> set techniques)"
    by simp
  have same: "map fst (((?w0 @ ?wA) @ ?wB) @ ?wC) = map fst (((?f0 @ ?fA) @ ?fB) @ ?fC)"
    by simp
  show ?thesis
  proof (intro exI conjI)
    show "augment_audio fp time_stretch normal audio output_dir base_name techniques =
            (((?w0 @ ?wA) @ ?wB) @ ?wC, Inr (((?f0 @ ?fA) @ ?fB) @ ?fC))" by (rule res)
    show "((?w0 @ ?wA) @ ?wB) @ ?wC = (?P ''_original.wav'', map Fin audio) # ?wA @ ?wB @ ?wC"
      by simp
    show "((?f0 @ ?fA) @ ?fB) @ ?fC = (?P ''_original.wav'', ''original'') # ?fA @ ?fB @ ?fC"
      by simp
    show "length (((?f0 @ ?fA) @ ?fB) @ ?fC) =
      1 + 2 * card ({''speed'', ''noise'', ''volume''} \<inter> set techniques)" by (rule len)
    show "distinct (map fst (((?f0 @ ?fA) @ ?fB) @ ?fC))" by (rule dist)
    show "map fst (((?w0 @ ?wA) @ ?wB) @ ?wC) = map fst (((?f0 @ ?fA) @ ?fB) @ ?fC)"
      by (rule same)
  qed
qed

theorem augment_audio_catalogue_witness:
  "''speed'' \<in> set [''speed'', ''noise''] \<and>
   demo_time_stretch [1/2, - 1/4] (9/10) = Inr [1/2, - 1/4] \<and>
   demo_time_stretch [1/2, - 1/4] (11/10) = Inr [1/2, - 1/4] \<and>
   ''noise'' \<in> set [''speed'', ''noise''] \<and>
   add_white_noise exact_arith [1/2, - 1/4]
     (map (demo_normal (3/1000)) [0..<length [1/2, - 1/4 :: real]]) =
     Inr [Fin (19/20), Fin (- (19/40))] \<and>
   add_white_noise exact_arith [1/2, - 1/4]
     (map (demo_normal (7/1000)) [0..<length [1/2, - 1/4 :: real]]) =
     Inr [Fin (19/20), Fin (- (19/40))] \<and>
   ''volume'' \<notin> set [''speed'', ''noise''] \<and>
   augment_audio exact_arith demo_time_stretch demo_normal [1/2, - 1/4] ''out/A'' ''a1''
     [''speed'', ''noise''] =
     ([(''out/A/a1_original.wav'', [Fin (1/2), Fin (- 1/4)]),
       (''out/A/a1_speed0.9.wav'', [Fin (1/2), Fin (- 1/4)]),
       (''out/A/a1_speed1.1.wav'', [Fin (1/2), Fin (- 1/4)]),
       (''out/A/a1_noise0.003.wav'', [Fin (19/20), Fin (- (19/40))]),
       (''out/A/a1_noise0.007.wav'', [Fin (19/20), Fin (- (19/40))])],
      Inr [(''out/A/a1_original.wav'', ''original''),
           (''out/A/a1_speed0.9.wav'', ''speed_0.9''),
           (''out/A/a1_speed1.1.wav'', ''speed_1.1''),
           (''out/A/a1_noise0.003.wav'', ''noise_0.003''),
           (''out/A/a1_noise0.007.wav'', ''noise_0.007'')])"
proof -
  have h1: "''speed'' \<in> set [''speed'', ''noise''] \<longrightarrow>
      demo_time_stretch [1/2, - 1/4] (9/10) = Inr [1/2, - 1/4] \<and>
      demo_time_stretch [1/2, - 1/4] (11/10) = Inr [1/2, - 1/4]"
    by (simp add: demo_time_stretch_def)
  have n: "add_white_noise exact_arith [1/2, - 1/4]
      (map (demo_normal l) [0..<length [1/2, - 1/4 :: real]]) =
      Inr [Fin (19/20), Fin (- (19/40))]" for l
    by (simp add: add_white_noise_def scale_to_peak_def demo_normal_def exact_arith_simps)
  have h2: "''noise'' \<in> set [''speed'', ''noise''] \<longrightarrow>
      add_white_noise exact_arith [1/2, - 1/4]
        (map (demo_normal (3/1000)) [0..<length [1/2, - 1/4 :: real]]) =
        Inr [Fin (19/20), Fin (- (19/40))] \<and>
      add_white_noise exact_arith [1/2, - 1/4]
        (map (demo_normal (7/1000)) [0..<length [1/2, - 1/4 :: real]]) =
        Inr [Fin (19/20), Fin (- (19/40))]"
    using n by blast
  have h3: "''volume'' \<in> set [''speed'', ''noise''] \<longrightarrow>
      volume_perturbation exact_arith [1/2, - 1/4] (- 3) = Inr [] \<and>
      volume_perturbation exact_arith [1/2, - 1/4] 3 = Inr []"
    by simp
  from augment_audio_catalogue [where techniques = "[''speed'', ''noise'']"
      and time_stretch = demo_time_stretch and audio = "[1/2, - 1/4]" and fp = exact_arith
      and normal = demo_normal and output_dir = "''out/A''" and base_name = "''a1''",
      OF h1 h2 h3] n
  show ?thesis by (simp add: demo_time_stretch_def variant_path_def)
qed

text \<open>
  C8 as stated covers every buffer. On an empty buffer with noise requested the original
  is written, then the peak scaling of the noise transform raises: no list is returned.
\<close>

theorem augment_audio_empty_buffer_raises:
  "augment_audio exact_arith demo_time_stretch demo_normal [] ''out/A'' ''a1'' [''noise''] =
     ([(''out/A/a1_original.wav'', [])], Inl ValueError)"
  by (simp add: augment_audio_def write_variant_def variant_path_def add_white_noise_def
      scale_to_peak_def Let_def)

section \<open>The duration estimate\<close>

text \<open>
  C10. The estimate in the statistics is, for every train split, the summed duration of
  its first 100 records times \<open>len(train)/100\<close>. With fewer than 100 train records it is
  the summed duration of all train records times \<open>len(train)/100\<close>, which for a non-empty
  train split of positive total duration is strictly less than that sum. It depends on
  the durations of the first 100 train records only: a change of the valid and test lists,
  of the list of all samples, or of the duration of any other file leaves it unchanged.
\<close>

theorem total_duration_estimate:
  "estimated_hours (make_stats get_duration all_samples train_data valid_data test_data
      sample_rate by_speaker) * 3600 =
     (\<Sum>sample\<leftarrow>take 100 train_data. get_duration (path sample)) *
       (real (length train_data) / 100) \<and>
   (length train_data < 100 \<longrightarrow>
      estimated_hours (make_stats get_duration all_samples train_data valid_data test_data
                         sample_rate by_speaker) * 3600 =
      (\<Sum>sample\<leftarrow>train_data. get_duration (path sample)) * (real (length train_data) / 100)) \<and>
   (train_data \<noteq> [] \<and> length train_data < 100 \<and>
      0 < (\<Sum>sample\<leftarrow>train_data. get_duration (path sample)) \<longrightarrow>
      estimated_hours (make_stats get_duration all_samples train_data valid_data test_data
                         sample_rate by_speaker) * 3600 <
      (\<Sum>sample\<leftarrow>train_data. get_duration (path sample))) \<and>
   ((\<forall>sample\<in>set (take 100 train_data). get_duration' (path sample) = get_duration (path sample)) \<longrightarrow>
      estimated_hours (make_stats get_duration' all_samples' train_data valid_data' test_data'
                         sample_rate by_speaker) =
      estimated_hours (make_stats get_duration all_samples train_data valid_data test_data
                         sample_rate by_speaker))"
proof (intro conjI impI)
  show "estimated_hours (make_stats get_duration all_samples train_data valid_data test_data
      sample_rate by_speaker) * 3600 =
     (\<Sum>sample\<leftarrow>take 100 train_data. get_duration (path sample)) *
       (real (length train_data) / 100)"
    by (simp add: make_stats_def total_duration_def)
next
  assume "length train_data < 100"
  then show "estimated_hours (make_stats get_duration all_samples train_data valid_data test_data
                         sample_rate by_speaker) * 3600 =
      (\<Sum>sample\<leftarrow>train_data. get_duration (path sample)) * (real (length train_data) / 100)"
    by (simp add: make_stats_def total_duration_def)
next
  assume a: "train_data \<noteq> [] \<and> length train_data < 100 \<and>
      0 < (\<Sum>sample\<leftarrow>train_data. get_duration (path sample))"
  let ?S = "\<Sum>sample\<leftarrow>train_data. get_duration (path sample)"
  have "0 < ?S"
    using a by simp
  moreover have "real (length train_data) / 100 < 1" using a by simp
  ultimately have "?S * (real (length train_data) / 100) < ?S * 1"
    by (intro mult_strict_left_mono)
  then have lt: "?S * (real (length train_data) / 100) < ?S"
    by (simp only: mult_1_right)
  have e: "estimated_hours (make_stats get_duration all_samples train_data valid_data test_data
                         sample_rate by_speaker) * 3600 =
           ?S * (real (length train_data) / 100)"
    using a by (simp add: make_stats_def total_duration_def)
  show "estimated_hours (make_stats get_duration all_samples train_data valid_data test_data
                         sample_rate by_speaker) * 3600 < ?S"
    unfolding e by (rule lt)
next
  assume "\<forall>sample\<in>set (take 100 train_data). get_duration' (path sample) = get_duration (path sample)"
  then have m: "map (\<lambda>sample. get_duration' (path sample)) (take 100 train_data) =
             map (\<lambda>sample. get_duration (path sample)) (take 100 train_data)"
    by (intro map_cong) auto
  show "estimated_hours (make_stats get_duration' all_samples' train_data valid_data' test_data'
                         sample_rate by_speaker) =
      estimated_hours (make_stats get_duration all_samples train_data valid_data test_data
                         sample_rate by_speaker)"
    by (simp add: make_stats_def total_duration_def m del: map_eq_conv)
qed

theorem total_duration_estimate_witness:
  "length [utterance ''a1'' ''A'', utterance ''a2'' ''A''] < 100 \<and>
   [utterance ''a1'' ''A'', utterance ''a2'' ''A''] \<noteq> [] \<and>
   0 < (\<Sum>sample\<leftarrow>[utterance ''a1'' ''A'', utterance ''a2'' ''A''].
          demo_get_duration (path sample)) \<and>
   estimated_hours (make_stats demo_get_duration demo_corpus
      [utterance ''a1'' ''A'', utterance ''a2'' ''A''] [utterance ''b1'' ''B'']
      [utterance ''c1'' ''C''] 16000 True) * 3600 = 4 * (2 / 100) \<and>
   estimated_hours (make_stats demo_get_duration demo_corpus
      [utterance ''a1'' ''A'', utterance ''a2'' ''A''] [utterance ''b1'' ''B'']
      [utterance ''c1'' ''C''] 16000 True) * 3600 < 4 \<and>
   estimated_hours (make_stats demo_get_duration []
      [utterance ''a1'' ''A'', utterance ''a2'' ''A''] [] [] 16000 True) =
   estimated_hours (make_stats demo_get_duration demo_corpus
      [utterance ''a1'' ''A'', utterance ''a2'' ''A''] [utterance ''b1'' ''B'']
      [utterance ''c1'' ''C''] 16000 True) \<and>
   estimated_hours (make_stats demo_get_duration [] (replicate 200 (utterance ''a'' ''A''))
      [] [] 16000 True) * 3600 = 200"
proof -
  have d: "demo_get_duration (path (utterance ''a1'' ''A'')) = 2"
    "demo_get_duration (path (utterance ''a2'' ''A'')) = 2"
    "demo_get_duration (path (utterance ''a'' ''A'')) = 1"
    by (simp_all add: demo_get_duration_def utterance_def)
  have t: "take 100 (replicate 200 (utterance ''a'' ''A'')) = replicate 100 (utterance ''a'' ''A'')"
    by simp
  have s: "(\<Sum>sample\<leftarrow>replicate 100 (utterance ''a'' ''A''). demo_get_duration (path sample)) = 100"
    by (simp add: d sum_list_replicate)
  from total_duration_estimate [where train_data = "[utterance ''a1'' ''A'', utterance ''a2'' ''A'']"
      and get_duration = demo_get_duration and get_duration' = demo_get_duration
      and all_samples = demo_corpus and valid_data = "[utterance ''b1'' ''B'']"
      and test_data = "[utterance ''c1'' ''C'']" and sample_rate = 16000 and by_speaker = True
      and all_samples' = "[]" and valid_data' = "[]" and test_data' = "[]"]
    total_duration_estimate [where train_data = "replicate 200 (utterance ''a'' ''A'')"
      and get_duration = demo_get_duration and get_duration' = demo_get_duration
      and all_samples = "[]" and valid_data = "[]"
      and test_data = "[]" and sample_rate = 16000 and by_speaker = True
      and all_samples' = "[]" and valid_data' = "[]" and test_data' = "[]"]
    d
  show ?thesis by (simp add: t s sum_list_replicate)
qed

section \<open>Reproducibility of the selection\<close>

text \<open>
  C5. The split is a function of the seed, the ratios and the input. The selection of the
  samples to augment is not a function of the seed: \<^verbatim>\<open>random.sample\<close> draws from the
  generator of the \<^verbatim>\<open>random\<close> module, which \<^verbatim>\<open>AudioAugmenter.__init__\<close> does not
  seed (it seeds numpy and a generator of its own that is never used). Two runs with the
  same seed 42 and the same samples, started with the module generator in different
  states, select different samples.
\<close>

theorem select_to_augment_unseeded:
  "select_to_augment demo_seeded demo_sample \<lparr>py_random = 0, np_random = 0\<rparr> demo_corpus (1/2) =
     Inr [utterance ''a1'' ''A'', utterance ''b1'' ''B'', utterance ''a2'' ''A'', utterance ''c1'' ''C''] \<and>
   select_to_augment demo_seeded demo_sample \<lparr>py_random = 1, np_random = 0\<rparr> demo_corpus (1/2) =
     Inr [utterance ''b1'' ''B'', utterance ''a2'' ''A'', utterance ''c1'' ''C'', utterance ''d1'' ''D'']"
  by code_simp


end
